theory Spec2Isabelle
  imports Main "HOL-Library.Sublist"
begin

section \<open>Python strings\<close>

text \<open>
  A Python \<^verbatim>\<open>str\<close> is a sequence of Unicode code points, so a string is a list of
  natural numbers. \<open>str\<close> turns an (ASCII) literal of the theory into such a list.
\<close>

type_synonym pystr = "nat list"

definition str :: "string \<Rightarrow> pystr" where
  "str s = map of_char s"

text \<open>
  \<^verbatim>\<open>str.isspace\<close>, which is also what \<^verbatim>\<open>str.strip()\<close> removes and what \<^verbatim>\<open>\s\<close>
  matches in a \<^verbatim>\<open>str\<close> pattern: the 29 white-space code points of CPython.
\<close>

definition isspace :: "nat \<Rightarrow> bool" where
  "isspace c =
     (c \<in> {9, 10, 11, 12, 13, 28, 29, 30, 31, 32, 133, 160, 5760, 8232, 8233, 8239, 8287, 12288}
      \<or> (8192 \<le> c \<and> c \<le> 8202))"

definition ascii_alpha :: "nat \<Rightarrow> bool" where
  "ascii_alpha c = ((65 \<le> c \<and> c \<le> 90) \<or> (97 \<le> c \<and> c \<le> 122))"

definition ascii_alnum :: "nat \<Rightarrow> bool" where
  "ascii_alnum c = ((48 \<le> c \<and> c \<le> 57) \<or> ascii_alpha c)"

text \<open>
  \<^verbatim>\<open>\w\<close> in a \<^verbatim>\<open>str\<close> pattern: the underscore or an alphanumeric code point. On ASCII
  that is letters and digits; beyond ASCII it is a table of the interpreter's Unicode
  database, taken as the parameter \<open>ua\<close>.
\<close>

definition is_word :: "(nat \<Rightarrow> bool) \<Rightarrow> nat \<Rightarrow> bool" where
  "is_word ua c = (c = 95 \<or> (if c < 128 then ascii_alnum c else ua c))"

text \<open>\<^verbatim>\<open>sub in s\<close> for strings.\<close>

fun py_in :: "pystr \<Rightarrow> pystr \<Rightarrow> bool" where
  "py_in sub [] = (sub = [])"
| "py_in sub (c # cs) = (prefix sub (c # cs) \<or> py_in sub cs)"

text \<open>
  \<^verbatim>\<open>s.split(sep)\<close> for a non-empty separator: the pieces between the non-overlapping
  occurrences of \<open>sep\<close>, found from the left. \<open>seg\<close> is the piece being read.
\<close>

function split_from :: "pystr \<Rightarrow> pystr \<Rightarrow> pystr \<Rightarrow> pystr list" where
  "split_from sep seg [] = [seg]"
| "split_from sep seg (c # cs) =
     (if sep \<noteq> [] \<and> prefix sep (c # cs)
      then seg # split_from sep [] (drop (length sep) (c # cs))
      else split_from sep (seg @ [c]) cs)"
  by pat_completeness auto
termination
  by (relation "measure (\<lambda>(sep, seg, s). length s)") auto

definition py_split :: "pystr \<Rightarrow> pystr \<Rightarrow> pystr list" where
  "py_split sep s = split_from sep [] s"

text \<open>\<^verbatim>\<open>s.strip()\<close>: white space removed at both ends.\<close>

definition py_strip :: "pystr \<Rightarrow> pystr" where
  "py_strip s = rev (dropWhile isspace (rev (dropWhile isspace s)))"

text \<open>The exceptions the program can meet, as far as its handlers tell them apart.\<close>

datatype exn = RequestException | ValueError | IndexError | ZeroDivisionError | OSError
  | OtherException

text \<open>\<^verbatim>\<open>xs[i]\<close> for \<open>i \<ge> 0\<close>: out of range raises.\<close>

definition subscript :: "'a list \<Rightarrow> nat \<Rightarrow> exn + 'a" where
  "subscript xs i = (if i < length xs then Inr (xs ! i) else Inl IndexError)"

section \<open>The environment\<close>

text \<open>
  What the program reads from outside itself: tables of the interpreter's libraries that
  are not part of the program, the network and the file system. A request to a URL is a
  function of the URL: the program sends at most one request of each kind to a URL.
  The messages that the program prints are not modelled, and \<^verbatim>\<open>print\<close> is taken to
  succeed.
\<close>

record response =
  status_code :: nat
  text' :: pystr

record stream_response =
  stream_status_code :: nat
  content_length :: "pystr option"
  chunks :: "nat list"
  body_fails :: bool

record env =
  unicode_isalnum :: "nat \<Rightarrow> bool"
  bracketed_host_invalid :: "pystr \<Rightarrow> bool"
  nfkc_netloc_invalid :: "pystr \<Rightarrow> bool"
  py_int :: "pystr \<Rightarrow> int option"
  http_get :: "pystr \<Rightarrow> exn + response"
  http_head :: "pystr \<Rightarrow> exn + nat"
  http_get_stream :: "pystr \<Rightarrow> exn + stream_response"
  path_exists :: "pystr \<Rightarrow> bool"
  makedirs_fails :: "pystr \<Rightarrow> bool"
  open_fails :: "pystr \<Rightarrow> bool"

text \<open>
  \<^item> \<open>unicode_isalnum\<close>: \<^verbatim>\<open>str.isalnum\<close> on the code points from 128 on;
  \<^item> \<open>bracketed_host_invalid\<close>: \<^verbatim>\<open>urllib.parse._check_bracketed_host\<close> raises
    \<^verbatim>\<open>ValueError\<close> (it asks the \<^verbatim>\<open>ipaddress\<close> module);
  \<^item> \<open>nfkc_netloc_invalid\<close>: \<^verbatim>\<open>urllib.parse._checknetloc\<close> raises \<^verbatim>\<open>ValueError\<close> on a
    non-ASCII netloc (it asks \<^verbatim>\<open>unicodedata\<close>);
  \<^item> \<open>py_int\<close>: \<^verbatim>\<open>int(s)\<close> of a string, \<open>None\<close> when it raises \<^verbatim>\<open>ValueError\<close>;
  \<^item> \<open>http_get\<close>: \<^verbatim>\<open>requests.get(url, timeout=10)\<close>;
    \<open>http_head\<close>: the status code of \<^verbatim>\<open>requests.head(url, timeout=5)\<close>;
    \<open>http_get_stream\<close>: \<^verbatim>\<open>requests.get(url, stream=True, timeout=30)\<close>, with the
    \<^verbatim>\<open>Content-Length\<close> header, the lengths of the chunks that \<^verbatim>\<open>iter_content\<close> yields, and
    whether reading the body or writing a chunk raises after them;
  \<^item> \<open>path_exists\<close>: \<^verbatim>\<open>os.path.exists\<close>; \<open>makedirs_fails\<close>: \<^verbatim>\<open>os.makedirs\<close> raises
    \<^verbatim>\<open>OSError\<close>; \<open>open_fails\<close>: \<^verbatim>\<open>open(path, 'wb')\<close> raises \<^verbatim>\<open>OSError\<close>.
\<close>

text \<open>\<^verbatim>\<open>Response.raise_for_status()\<close> raises on the statuses 400 to 599.\<close>

definition raise_for_status :: "nat \<Rightarrow> bool" where
  "raise_for_status code = (400 \<le> code \<and> code < 600)"

section \<open>The URL validator\<close>

subsection \<open>\<^verbatim>\<open>urllib.parse.urlparse\<close>\<close>

text \<open>
  The validator calls \<^verbatim>\<open>urlparse\<close> of the standard library (CPython 3.11,
  \<^verbatim>\<open>Lib/urllib/parse.py\<close>): leading C0 control characters and spaces are dropped, tabs
  and line breaks are removed, a scheme is split off at the first colon when all that
  precedes it are scheme characters starting with an ASCII letter, the netloc is what
  follows \<^verbatim>\<open>//\<close> up to the first of \<^verbatim>\<open>/ ? #\<close>, then the fragment and the query are cut
  off the rest, and \<^verbatim>\<open>urlparse\<close> cuts the parameters off the last path segment.
\<close>

record parse_result =
  scheme :: pystr
  netloc :: pystr
  path :: pystr
  params :: pystr
  query :: pystr
  fragment :: pystr

definition whatwg_c0_control_or_space :: "nat \<Rightarrow> bool" where
  "whatwg_c0_control_or_space c = (c \<le> 32)"

definition unsafe_url_byte :: "nat \<Rightarrow> bool" where
  "unsafe_url_byte c = (c = 9 \<or> c = 13 \<or> c = 10)"

definition scheme_char :: "nat \<Rightarrow> bool" where
  "scheme_char c = (ascii_alnum c \<or> c = 43 \<or> c = 45 \<or> c = 46)"

definition ascii_lower :: "nat \<Rightarrow> nat" where
  "ascii_lower c = (if 65 \<le> c \<and> c \<le> 90 then c + 32 else c)"

definition uses_params :: "pystr list" where
  "uses_params = map str ['''', ''ftp'', ''hdl'', ''prospero'', ''http'', ''imap'', ''https'',
     ''shttp'', ''rtsp'', ''rtsps'', ''rtspu'', ''sip'', ''sips'', ''mms'', ''sftp'', ''tel'']"

text \<open>\<^verbatim>\<open>head, sep, tail = s.partition(c)\<close> for a character \<open>c\<close> that occurs in \<open>s\<close>.\<close>

definition cut_at :: "nat \<Rightarrow> pystr \<Rightarrow> pystr \<times> pystr" where
  "cut_at c s = (takeWhile (\<lambda>d. d \<noteq> c) s, tl (dropWhile (\<lambda>d. d \<noteq> c) s))"

definition split_scheme :: "pystr \<Rightarrow> pystr \<times> pystr" where
  "split_scheme url =
     (let pre = takeWhile (\<lambda>c. c \<noteq> 58) url in
      if 58 \<in> set url \<and> pre \<noteq> [] \<and> ascii_alpha (hd url) \<and> list_all scheme_char pre
      then (map ascii_lower pre, drop (Suc (length pre)) url)
      else ([], url))"

definition netloc_delim :: "nat \<Rightarrow> bool" where
  "netloc_delim c = (c = 47 \<or> c = 63 \<or> c = 35)"

definition splitnetloc :: "pystr \<Rightarrow> pystr \<times> pystr" where
  "splitnetloc url =
     (takeWhile (\<lambda>c. \<not> netloc_delim c) (drop 2 url),
      dropWhile (\<lambda>c. \<not> netloc_delim c) (drop 2 url))"

text \<open>The two checks of a netloc with square brackets; \<open>True\<close> when \<^verbatim>\<open>ValueError\<close> is raised.\<close>

definition brackets_raise :: "env \<Rightarrow> pystr \<Rightarrow> bool" where
  "brackets_raise env nl =
     (if (91 \<in> set nl \<and> 93 \<notin> set nl) \<or> (93 \<in> set nl \<and> 91 \<notin> set nl) then True
      else if 91 \<in> set nl \<and> 93 \<in> set nl
      then bracketed_host_invalid env (fst (cut_at 93 (snd (cut_at 91 nl))))
      else False)"

definition checknetloc_raises :: "env \<Rightarrow> pystr \<Rightarrow> bool" where
  "checknetloc_raises env nl =
     (if nl = [] \<or> list_all (\<lambda>c. c < 128) nl then False else nfkc_netloc_invalid env nl)"

definition urlsplit :: "env \<Rightarrow> pystr \<Rightarrow> exn + (pystr \<times> pystr \<times> pystr \<times> pystr \<times> pystr)" where
  "urlsplit env url0 =
     (let url1 = filter (\<lambda>c. \<not> unsafe_url_byte c) (dropWhile whatwg_c0_control_or_space url0);
          (sch, url2) = split_scheme url1;
          has_netloc = (take 2 url2 = str ''//'');
          (nl, url3) = (if has_netloc then splitnetloc url2 else ([], url2))
      in if has_netloc \<and> brackets_raise env nl then Inl ValueError
         else
           let (url4, frag) = (if 35 \<in> set url3 then cut_at 35 url3 else (url3, []));
               (url5, qry) = (if 63 \<in> set url4 then cut_at 63 url4 else (url4, []))
           in if checknetloc_raises env nl then Inl ValueError
              else Inr (sch, nl, url5, qry, frag))"

text \<open>
  \<^verbatim>\<open>_splitparams\<close>, which \<^verbatim>\<open>urlparse\<close> calls only on a path with a semicolon: the path is
  cut at the first semicolon of its last segment, if there is one.
\<close>

definition splitparams :: "pystr \<Rightarrow> pystr \<times> pystr" where
  "splitparams url =
     (let start = (if 47 \<in> set url then length url - Suc (length (takeWhile (\<lambda>c. c \<noteq> 47) (rev url)))
                   else 0);
          seg = drop start url
      in if 59 \<in> set seg then (take start url @ fst (cut_at 59 seg), snd (cut_at 59 seg))
         else (url, []))"

definition urlparse :: "env \<Rightarrow> pystr \<Rightarrow> exn + parse_result" where
  "urlparse env url =
     (case urlsplit env url of
        Inl e \<Rightarrow> Inl e
      | Inr (sch, nl, url', qry, frag) \<Rightarrow>
          (let (url'', prm) = (if sch \<in> set uses_params \<and> 59 \<in> set url' then splitparams url'
                               else (url', []))
           in Inr \<lparr>scheme = sch, netloc = nl, path = url'', params = prm, query = qry,
                    fragment = frag\<rparr>))"

subsection \<open>\<^verbatim>\<open>is_valid_udio_url\<close>\<close>

text \<open>The bare \<^verbatim>\<open>except\<close> turns every exception of the parse into \<^verbatim>\<open>False\<close>.\<close>

definition is_valid_udio_url :: "env \<Rightarrow> pystr \<Rightarrow> bool" where
  "is_valid_udio_url env url =
     (case urlparse env url of
        Inl e \<Rightarrow> False
      | Inr parsed \<Rightarrow> netloc parsed = str ''www.udio.com'' \<and> py_in (str ''/songs/'') (path parsed))"

section \<open>The page fetcher and link extractor\<close>

subsection \<open>The two patterns\<close>

text \<open>
  \<^verbatim>\<open>https://storage\.googleapis\.com/[^"]+\.mp3\<close> matched at the start of \<open>s\<close>: after
  the literal prefix, \<^verbatim>\<open>[^"]+\<close> is greedy, so it first takes the whole run of characters
  other than the double quote and then gives characters back until \<^verbatim>\<open>.mp3\<close> follows; the
  match is the prefix and the longest part of the run that has at least one character
  before a final \<^verbatim>\<open>.mp3\<close>.
\<close>

definition mp3_prefix :: pystr where
  "mp3_prefix = str ''https://storage.googleapis.com/''"

definition match_mp3 :: "pystr \<Rightarrow> pystr option" where
  "match_mp3 s =
     (if prefix mp3_prefix s then
        (let run = takeWhile (\<lambda>c. c \<noteq> 34) (drop (length mp3_prefix) s) in
         case find (\<lambda>k. take 4 (drop k run) = str ''.mp3'') (rev [1 ..< length run - 3]) of
           None \<Rightarrow> None
         | Some k \<Rightarrow> Some (mp3_prefix @ take (k + 4) run))
      else None)"

text \<open>
  \<^verbatim>\<open>re.findall\<close>: the matches from left to right, each search starting where the
  previous match ended.
\<close>

function findall_mp3 :: "pystr \<Rightarrow> pystr list" where
  "findall_mp3 [] = []"
| "findall_mp3 (c # cs) =
     (case match_mp3 (c # cs) of
        None \<Rightarrow> findall_mp3 cs
      | Some m \<Rightarrow> m # findall_mp3 (drop (length m) (c # cs)))"
  by pat_completeness auto
termination
proof (relation "measure length")
  show "wf (measure length)" by simp
next
  fix c :: nat and cs :: pystr
  show "(cs, c # cs) \<in> measure length" by simp
next
  fix c :: nat and cs m :: pystr
  assume "match_mp3 (c # cs) = Some m"
  then obtain r where "m = mp3_prefix @ r"
    by (auto simp: match_mp3_def Let_def split: if_splits option.splits)
  moreover have "mp3_prefix \<noteq> []"
    by (simp add: mp3_prefix_def str_def)
  ultimately have "0 < length m" by simp
  then show "(drop (length m) (c # cs), c # cs) \<in> measure length" by simp
qed

text \<open>
  \<^verbatim>\<open><title>([^<]+)</title>\<close> matched at the start of \<open>s\<close>: the group is the whole run of
  characters other than \<^verbatim>\<open><\<close>, which must not be empty and must be followed by the closing
  tag. The result is the group.
\<close>

definition match_title :: "pystr \<Rightarrow> pystr option" where
  "match_title s =
     (if prefix (str ''<title>'') s then
        (let rest = drop 7 s; g = takeWhile (\<lambda>c. c \<noteq> 60) rest in
         if g \<noteq> [] \<and> prefix (str ''</title>'') (dropWhile (\<lambda>c. c \<noteq> 60) rest) then Some g
         else None)
      else None)"

text \<open>\<^verbatim>\<open>re.search\<close>: the leftmost match.\<close>

fun search_title :: "pystr \<Rightarrow> pystr option" where
  "search_title [] = None"
| "search_title (c # cs) =
     (case match_title (c # cs) of Some g \<Rightarrow> Some g | None \<Rightarrow> search_title cs)"

subsection \<open>Removing duplicates\<close>

text \<open>The loop over \<^verbatim>\<open>all_mp3_urls\<close>, with its two variables \<^verbatim>\<open>seen\<close> and \<^verbatim>\<open>unique_urls\<close>.\<close>

fun dedup_loop :: "pystr set \<Rightarrow> pystr list \<Rightarrow> pystr list \<Rightarrow> pystr list" where
  "dedup_loop seen unique_urls [] = unique_urls"
| "dedup_loop seen unique_urls (url # rest) =
     (if url \<notin> seen then dedup_loop (insert url seen) (unique_urls @ [url]) rest
      else dedup_loop seen unique_urls rest)"

definition remove_duplicates :: "pystr list \<Rightarrow> pystr list" where
  "remove_duplicates all_mp3_urls = dedup_loop {} [] all_mp3_urls"

subsection \<open>Probing the candidates\<close>

text \<open>
  The loop over \<^verbatim>\<open>unique_urls\<close>: each URL is sent a \<^verbatim>\<open>HEAD\<close> request; status 200 selects
  it and leaves the loop, any other status or an exception goes on to the next URL. The
  result is the value of \<^verbatim>\<open>audio_url\<close> after the loop and the URLs probed, in order.
\<close>

fun probe_loop :: "(pystr \<Rightarrow> exn + nat) \<Rightarrow> pystr list \<Rightarrow> pystr option \<times> pystr list" where
  "probe_loop head [] = (None, [])"
| "probe_loop head (url # rest) =
     (case head url of
        Inr code \<Rightarrow>
          if code = 200 then (Some url, [url])
          else (fst (probe_loop head rest), url # snd (probe_loop head rest))
      | Inl e \<Rightarrow> (fst (probe_loop head rest), url # snd (probe_loop head rest)))"

text \<open>
  \<^verbatim>\<open>if not audio_url: audio_url = unique_urls[0]\<close>: \<^verbatim>\<open>None\<close> and the empty string are
  both false.
\<close>

definition select_audio_url :: "(pystr \<Rightarrow> exn + nat) \<Rightarrow> pystr list \<Rightarrow> exn + pystr" where
  "select_audio_url head unique_urls =
     (case fst (probe_loop head unique_urls) of
        None \<Rightarrow> subscript unique_urls 0
      | Some audio_url \<Rightarrow> if audio_url = [] then subscript unique_urls 0 else Inr audio_url)"

subsection \<open>The title\<close>

text \<open>\<^verbatim>\<open>re.sub(r'[^\w\s-]', '', s)\<close> keeps the word characters, the white space and the hyphen.\<close>

definition re_sub_title :: "(nat \<Rightarrow> bool) \<Rightarrow> pystr \<Rightarrow> pystr" where
  "re_sub_title ua s = filter (\<lambda>c. is_word ua c \<or> isspace c \<or> c = 45) s"

text \<open>\<^verbatim>\<open>s.replace(' ', '_')\<close>.\<close>

definition replace_space :: "pystr \<Rightarrow> pystr" where
  "replace_space s = map (\<lambda>c. if c = 32 then 95 else c) s"

text \<open>Line 94, the sanitizing step.\<close>

definition sanitize :: "(nat \<Rightarrow> bool) \<Rightarrow> pystr \<Rightarrow> pystr" where
  "sanitize ua s = replace_space (py_strip (re_sub_title ua s))"

text \<open>\<^verbatim>\<open>title_text.split(' - ')[1].split(' | ')[0].strip()\<close>.\<close>

definition song_name_part :: "pystr \<Rightarrow> exn + pystr" where
  "song_name_part title_text =
     (case subscript (py_split (str '' - '') title_text) 1 of
        Inl e \<Rightarrow> Inl e
      | Inr after \<Rightarrow>
          (case subscript (py_split (str '' | '') after) 0 of
             Inl e \<Rightarrow> Inl e
           | Inr name \<Rightarrow> Inr (py_strip name)))"

text \<open>Lines 86 to 94: the title of a page body.\<close>

definition song_title_of :: "(nat \<Rightarrow> bool) \<Rightarrow> pystr \<Rightarrow> exn + pystr" where
  "song_title_of ua body =
     (case search_title body of
        None \<Rightarrow> Inr (str ''udio_song'')
      | Some title_text \<Rightarrow>
          (if py_in (str '' - '') title_text
           then (case song_name_part title_text of
                   Inl e \<Rightarrow> Inl e
                 | Inr song_title \<Rightarrow> Inr (sanitize ua song_title))
           else Inr (sanitize ua (str ''udio_song''))))"

subsection \<open>\<^verbatim>\<open>extract_audio_url\<close>\<close>

text \<open>
  The result is the pair that the function returns, \<open>None\<close> for Python's \<^verbatim>\<open>None\<close>. Both
  handlers of the \<^verbatim>\<open>try\<close> return \<^verbatim>\<open>(None, None)\<close>, so every exception raised inside it
  does.
\<close>

definition extract_audio_url :: "env \<Rightarrow> pystr \<Rightarrow> pystr option \<times> pystr option" where
  "extract_audio_url env udio_url =
     (case http_get env udio_url of
        Inl e \<Rightarrow> (None, None)
      | Inr response \<Rightarrow>
          if raise_for_status (status_code response) then (None, None)
          else
            (let all_mp3_urls = findall_mp3 (text' response) in
             if all_mp3_urls = [] then (None, None)
             else
               (case select_audio_url (http_head env) (remove_duplicates all_mp3_urls) of
                  Inl e \<Rightarrow> (None, None)
                | Inr audio_url \<Rightarrow>
                    (case song_title_of (unicode_isalnum env) (text' response) of
                       Inl e \<Rightarrow> (None, None)
                     | Inr song_title \<Rightarrow> (Some audio_url, Some song_title)))))"

section \<open>The downloader\<close>

text \<open>
  \<^verbatim>\<open>int(file_size) / (1024 * 1024)\<close> raises \<^verbatim>\<open>OverflowError\<close> when the quotient is
  beyond the range of a float, that is when it would round to \<open>2 ^ 1024\<close> or more.
\<close>

definition size_overflows :: "int \<Rightarrow> bool" where
  "size_overflows n = ((2 ^ 1024 - 2 ^ 970) * (1024 * 1024) \<le> abs n)"

text \<open>
  \<^verbatim>\<open>download_audio\<close> returns whether the download succeeded; the second component says
  whether \<^verbatim>\<open>open(output_path, 'wb')\<close> was reached and created or truncated the file. Every
  exception inside the \<^verbatim>\<open>try\<close> gives \<^verbatim>\<open>False\<close>: the request, \<^verbatim>\<open>raise_for_status\<close>,
  \<^verbatim>\<open>int(file_size)\<close> and the size in megabytes before the file is opened, \<^verbatim>\<open>open\<close>, the
  division by \<^verbatim>\<open>int(file_size)\<close> for the progress after the first chunk, and reading or
  writing the body. The number of bytes read stays far below the range where the
  progress itself could overflow.
\<close>

definition download_audio :: "env \<Rightarrow> pystr \<Rightarrow> pystr \<Rightarrow> bool \<times> bool" where
  "download_audio env audio_url output_path =
     (case http_get_stream env audio_url of
        Inl e \<Rightarrow> (False, False)
      | Inr audio_response \<Rightarrow>
          if raise_for_status (stream_status_code audio_response) then (False, False)
          else
            (let file_size = content_length audio_response;
                 has_size = (case file_size of None \<Rightarrow> False | Some s \<Rightarrow> s \<noteq> []);
                 size = (case file_size of None \<Rightarrow> None | Some s \<Rightarrow> py_int env s)
             in if has_size \<and> size = None then (False, False)
                else if has_size \<and> (case size of None \<Rightarrow> False | Some n \<Rightarrow> size_overflows n)
                then (False, False)
                else if open_fails env output_path then (False, False)
                else if has_size \<and> chunks audio_response \<noteq> [] \<and> size = Some 0
                then (False, True)
                else if body_fails audio_response then (False, True)
                else (True, True)))"

section \<open>The command line\<close>

text \<open>\<^verbatim>\<open>os.path.join\<close> of two components (POSIX).\<close>

definition path_join :: "pystr \<Rightarrow> pystr \<Rightarrow> pystr" where
  "path_join a b =
     (if prefix [47] b then b
      else if a = [] \<or> suffix [47] a then a @ b
      else a @ [47] @ b)"

text \<open>How an f-string prints a value that may be \<^verbatim>\<open>None\<close>.\<close>

definition format_str :: "pystr option \<Rightarrow> pystr" where
  "format_str v = (case v of None \<Rightarrow> str ''None'' | Some s \<Rightarrow> s)"

text \<open>
  How a run of \<^verbatim>\<open>main\<close> ends: \<^verbatim>\<open>sys.exit(n)\<close>, an exception that nothing catches, or
  the end of \<^verbatim>\<open>main\<close> (exit status 0). A run also records the directories that
  \<^verbatim>\<open>os.makedirs\<close> created and the files that were opened for writing.
\<close>

datatype outcome = Exit nat | Uncaught exn | Completed

record run =
  status :: outcome
  made_dirs :: "pystr list"
  opened_files :: "pystr list"

text \<open>\<open>argv\<close> is \<^verbatim>\<open>sys.argv\<close>, the program name first.\<close>

definition main :: "env \<Rightarrow> pystr list \<Rightarrow> run" where
  "main env argv =
     (if length argv < 2 then \<lparr>status = Exit 1, made_dirs = [], opened_files = []\<rparr>
      else
        (let udio_url = py_strip (argv ! 1);
             output_dir = (if length argv > 2 then argv ! 2 else str ''.'')
         in if \<not> is_valid_udio_url env udio_url
            then \<lparr>status = Exit 1, made_dirs = [], opened_files = []\<rparr>
            else if \<not> path_exists env output_dir \<and> makedirs_fails env output_dir
            then \<lparr>status = Uncaught OSError, made_dirs = [], opened_files = []\<rparr>
            else
              (let dirs = (if \<not> path_exists env output_dir then [output_dir] else []);
                   (audio_url, song_title) = extract_audio_url env udio_url
               in case audio_url of
                    None \<Rightarrow> \<lparr>status = Exit 1, made_dirs = dirs, opened_files = []\<rparr>
                  | Some url \<Rightarrow>
                      if url = [] then \<lparr>status = Exit 1, made_dirs = dirs, opened_files = []\<rparr>
                      else
                        (let output_path =
                               path_join output_dir (format_str song_title @ str ''.mp3'');
                             (success, opened) = download_audio env url output_path;
                             files = (if opened then [output_path] else [])
                         in if \<not> success
                            then \<lparr>status = Exit 1, made_dirs = dirs, opened_files = files\<rparr>
                            else \<lparr>status = Completed, made_dirs = dirs,
                                   opened_files = files\<rparr>))))"

section \<open>Environments for the examples\<close>

text \<open>
  An environment in which every page request is answered with status 200 and the body
  \<open>body\<close>, the probes are answered by \<open>head\<close>, the output directory exists, and no
  download is possible.
\<close>

definition page_env :: "pystr \<Rightarrow> (pystr \<Rightarrow> exn + nat) \<Rightarrow> env" where
  "page_env body head =
     \<lparr>unicode_isalnum = (\<lambda>c. False), bracketed_host_invalid = (\<lambda>s. True),
      nfkc_netloc_invalid = (\<lambda>s. True), py_int = (\<lambda>s. None),
      http_get = (\<lambda>u. Inr \<lparr>status_code = 200, text' = body\<rparr>), http_head = head,
      http_get_stream = (\<lambda>u. Inl RequestException), path_exists = (\<lambda>p. True),
      makedirs_fails = (\<lambda>p. False), open_fails = (\<lambda>p. False)\<rparr>"

text \<open>Probes answered from a table; a URL that is not in the table cannot be reached.\<close>

definition head_table :: "(pystr \<times> nat) list \<Rightarrow> pystr \<Rightarrow> exn + nat" where
  "head_table t url = (case map_of t url of None \<Rightarrow> Inl RequestException | Some code \<Rightarrow> Inr code)"

text \<open>The same environment where the output directory is missing and cannot be created.\<close>

definition no_dir_env :: "pystr \<Rightarrow> (pystr \<Rightarrow> exn + nat) \<Rightarrow> env" where
  "no_dir_env body head =
     (page_env body head)\<lparr>path_exists := (\<lambda>p. False), makedirs_fails := (\<lambda>p. True)\<rparr>"

text \<open>The song page and three asset links of the examples.\<close>

definition song_url :: pystr where
  "song_url = str ''https://www.udio.com/songs/abc123''"

definition mp3_a :: pystr where
  "mp3_a = str ''https://storage.googleapis.com/a.mp3''"

definition mp3_b :: pystr where
  "mp3_b = str ''https://storage.googleapis.com/b.mp3''"

definition mp3_c :: pystr where
  "mp3_c = str ''https://storage.googleapis.com/c.mp3''"

text \<open>A page body that links \<open>mp3_a\<close>, \<open>mp3_b\<close>, \<open>mp3_a\<close> again and \<open>mp3_c\<close>.\<close>

definition links_page :: pystr where
  "links_page = str
     ''<a href=\"https://storage.googleapis.com/a.mp3\"><a href=\"https://storage.googleapis.com/b.mp3\"><a href=\"https://storage.googleapis.com/a.mp3\"><a href=\"https://storage.googleapis.com/c.mp3\">''"

text \<open>A page body with the title \<open>title\<close> and a link to \<open>mp3_a\<close>.\<close>

definition titled_page :: "pystr \<Rightarrow> pystr" where
  "titled_page title =
     str ''<title>'' @ title @ str ''</title><a href=\"https://storage.googleapis.com/a.mp3\">''"

section \<open>Notions used in the statements\<close>

text \<open>A string that \<^verbatim>\<open>strip()\<close> leaves as it is: no white space at either end.\<close>

definition stripped :: "pystr \<Rightarrow> bool" where
  "stripped s = (s = [] \<or> (\<not> isspace (hd s) \<and> \<not> isspace (last s)))"

text \<open>
  The characters of a sanitized title: word characters (the underscore is one), the hyphen,
  and white space other than the space character.
\<close>

definition title_char :: "(nat \<Rightarrow> bool) \<Rightarrow> nat \<Rightarrow> bool" where
  "title_char ua c = (is_word ua c \<or> c = 45 \<or> (isspace c \<and> c \<noteq> 32))"

text \<open>
  The host of a netloc in the sense of the specification (RFC 3986: the authority is
  \<^verbatim>\<open>[userinfo@]host[:port]\<close>): what follows the last \<^verbatim>\<open>@\<close>, up to the colon of the
  port. The program never computes it; it compares the whole netloc.
\<close>

definition spec_host :: "pystr \<Rightarrow> pystr" where
  "spec_host nl = takeWhile (\<lambda>c. c \<noteq> 58) (rev (takeWhile (\<lambda>c. c \<noteq> 64) (rev nl)))"

section \<open>Sanitizing a title\<close>

lemma isspace_32: "isspace 32"
  by (simp add: isspace_def)

lemma is_word_95: "is_word ua 95"
  by (simp add: is_word_def)

lemma rstrip_Cons:
  "\<not> P x \<Longrightarrow> rev (dropWhile P (rev (x # xs))) = x # rev (dropWhile P (rev xs))"
  by (simp add: dropWhile_append3)

lemma stripped_py_strip: "stripped (py_strip s)"
proof (cases "dropWhile isspace s")
  case Nil
  have "py_strip s = []" unfolding py_strip_def Nil by simp
  then show ?thesis by (simp add: stripped_def)
next
  case (Cons x xs)
  then have nx: "\<not> isspace x"
    using hd_dropWhile[of isspace s] by fastforce
  have eq: "py_strip s = x # rev (dropWhile isspace (rev xs))"
    by (simp add: py_strip_def Cons rstrip_Cons[of isspace x, OF nx] del: rev.simps)
  show ?thesis
  proof (cases "dropWhile isspace (rev xs)")
    case Nil
    then show ?thesis using nx eq by (simp add: stripped_def)
  next
    case (Cons y ys)
    then have "\<not> isspace y"
      using hd_dropWhile[of isspace "rev xs"] by fastforce
    then show ?thesis using nx eq Cons by (simp add: stripped_def)
  qed
qed

lemma py_strip_stripped: "stripped s \<Longrightarrow> py_strip s = s"
proof (cases s)
  case Nil
  then show ?thesis by (simp add: py_strip_def)
next
  case (Cons x xs)
  assume "stripped s"
  then have nx: "\<not> isspace x" and nl: "\<not> isspace (last (x # xs))"
    using Cons by (auto simp: stripped_def)
  have "\<not> isspace (hd (rev (x # xs)))"
    unfolding hd_rev by (rule nl)
  then have "dropWhile isspace (rev (x # xs)) = rev (x # xs)"
    by (simp only: dropWhile_eq_self_iff) simp
  then show ?thesis using nx Cons by (simp add: py_strip_def del: rev.simps)
qed

lemma stripped_replace_space: "stripped s \<Longrightarrow> stripped (replace_space s)"
  using isspace_32 by (cases s) (auto simp: stripped_def replace_space_def hd_map last_map)

lemma replace_space_twice: "replace_space (replace_space s) = replace_space s"
  by (simp add: replace_space_def)

lemma set_py_strip: "set (py_strip s) \<subseteq> set s"
proof -
  have "set (py_strip s) \<subseteq> set (dropWhile isspace s)"
    unfolding py_strip_def using set_dropWhileD by fastforce
  then show ?thesis using set_dropWhileD by fastforce
qed

lemma re_sub_title_id:
  "\<forall>c\<in>set s. is_word ua c \<or> isspace c \<or> c = 45 \<Longrightarrow> re_sub_title ua s = s"
  by (simp add: re_sub_title_def)

lemma sanitize_title_char: "c \<in> set (sanitize ua s) \<Longrightarrow> title_char ua c"
proof -
  assume "c \<in> set (sanitize ua s)"
  then obtain d where d: "d \<in> set (py_strip (re_sub_title ua s))"
    and c: "c = (if d = 32 then 95 else d)"
    by (auto simp: sanitize_def replace_space_def)
  from d have "d \<in> set (re_sub_title ua s)"
    using set_py_strip by blast
  then have "is_word ua d \<or> isspace d \<or> d = 45"
    by (simp add: re_sub_title_def)
  then show ?thesis using c is_word_95 by (auto simp: title_char_def)
qed

lemma stripped_sanitize: "stripped (sanitize ua s)"
  unfolding sanitize_def by (intro stripped_replace_space stripped_py_strip)

text \<open>
  C8. The sanitizing step of line 94 (remove every character that is neither a word
  character nor white space nor a hyphen, strip the white space at both ends, replace
  each space by an underscore) is idempotent: applied to its own result it returns that
  result, for every string and every Unicode table.
\<close>

theorem sanitize_idempotent: "sanitize ua (sanitize ua s) = sanitize ua s"
proof -
  let ?r = "sanitize ua s"
  have "\<forall>c\<in>set ?r. is_word ua c \<or> isspace c \<or> c = 45"
    using sanitize_title_char[of _ ua s] by (auto simp: title_char_def)
  then have 1: "re_sub_title ua ?r = ?r"
    by (rule re_sub_title_id)
  have 2: "py_strip ?r = ?r"
    using stripped_sanitize by (rule py_strip_stripped)
  have 3: "replace_space ?r = ?r"
    unfolding sanitize_def by (rule replace_space_twice)
  have "sanitize ua ?r = replace_space (py_strip (re_sub_title ua ?r))"
    by (simp only: sanitize_def)
  then show ?thesis using 1 2 3 by simp
qed

theorem sanitize_idempotent_witness:
  "sanitize (\<lambda>c. False) (str '' Great Hit! '') = str ''Great_Hit''
   \<and> sanitize (\<lambda>c. False) (str ''Great_Hit'') = str ''Great_Hit''"
proof -
  have "sanitize (\<lambda>c. False) (str '' Great Hit! '') = str ''Great_Hit''"
    by (simp add: sanitize_def replace_space_def py_strip_def re_sub_title_def is_word_def
        isspace_def ascii_alnum_def ascii_alpha_def str_def)
  then show ?thesis
    using sanitize_idempotent[of "\<lambda>c. False" "str '' Great Hit! ''"] by simp
qed

section \<open>Removing duplicates\<close>

lemma dedup_loop_snoc:
  "dedup_loop (set acc) acc (xs @ [x]) =
     (if x \<in> set acc \<union> set xs then dedup_loop (set acc) acc xs
      else dedup_loop (set acc) acc xs @ [x])"
proof (induction xs arbitrary: acc)
  case Nil
  show ?case by simp
next
  case (Cons y ys)
  have ins: "insert y (set acc) = set (acc @ [y])" by simp
  show ?case
  proof (cases "y \<in> set acc")
    case True
    then show ?thesis using Cons.IH[of acc] by auto
  next
    case False
    then show ?thesis
      using Cons.IH[of "acc @ [y]"] by (simp only: dedup_loop.simps ins if_True) auto
  qed
qed

lemma remove_duplicates_Nil: "remove_duplicates [] = []"
  by (simp add: remove_duplicates_def)

lemma remove_duplicates_snoc:
  "remove_duplicates (xs @ [x]) =
     (if x \<in> set xs then remove_duplicates xs else remove_duplicates xs @ [x])"
  using dedup_loop_snoc[of "[]" xs x] by (simp add: remove_duplicates_def)

lemma set_remove_duplicates: "set (remove_duplicates xs) = set xs"
  by (induction xs rule: rev_induct) (auto simp: remove_duplicates_Nil remove_duplicates_snoc)

lemma distinct_remove_duplicates: "distinct (remove_duplicates xs)"
  by (induction xs rule: rev_induct)
    (auto simp: remove_duplicates_Nil remove_duplicates_snoc set_remove_duplicates)

lemma length_remove_duplicates: "length (remove_duplicates xs) \<le> length xs"
  by (induction xs rule: rev_induct) (auto simp: remove_duplicates_Nil remove_duplicates_snoc)

lemma first_index_less: "u \<in> set xs \<Longrightarrow> length (takeWhile (\<lambda>v. v \<noteq> u) xs) < length xs"
  by (induction xs) auto

lemma first_index_append:
  "u \<in> set xs \<Longrightarrow> takeWhile (\<lambda>v. v \<noteq> u) (xs @ ys) = takeWhile (\<lambda>v. v \<noteq> u) xs"
  by (induction xs) auto

lemma first_index_new: "x \<notin> set xs \<Longrightarrow> takeWhile (\<lambda>v. v \<noteq> x) (xs @ [x]) = xs"
  by (induction xs) auto

lemma first_occurrence_order:
  "sorted_wrt (<) (map (\<lambda>u. length (takeWhile (\<lambda>v. v \<noteq> u) xs)) (remove_duplicates xs))"
proof (induction xs rule: rev_induct)
  case Nil
  show ?case by (simp add: remove_duplicates_Nil)
next
  case (snoc x xs)
  have same: "map (\<lambda>u. length (takeWhile (\<lambda>v. v \<noteq> u) (xs @ [x]))) (remove_duplicates xs)
      = map (\<lambda>u. length (takeWhile (\<lambda>v. v \<noteq> u) xs)) (remove_duplicates xs)"
    by (rule map_cong) (simp_all add: set_remove_duplicates first_index_append)
  show ?case
  proof (cases "x \<in> set xs")
    case True
    then have "remove_duplicates (xs @ [x]) = remove_duplicates xs"
      by (simp add: remove_duplicates_snoc)
    then show ?thesis unfolding same by (simp only: same snoc)
  next
    case False
    then have rd: "remove_duplicates (xs @ [x]) = remove_duplicates xs @ [x]"
      by (simp add: remove_duplicates_snoc)
    have "\<forall>n\<in>set (map (\<lambda>u. length (takeWhile (\<lambda>v. v \<noteq> u) xs)) (remove_duplicates xs)).
        n < length xs"
      by (auto simp: set_remove_duplicates first_index_less)
    then show ?thesis unfolding rd map_append same
      using snoc False by (simp add: sorted_wrt_append first_index_new)
  qed
qed

text \<open>
  C5. Whatever list of matches the scan of a page body yields, repeats included, the
  loop of lines 55 to 60 returns a list without duplicates that contains exactly the
  links matched; the links stand in the order of their first occurrences in the scan
  (the position of the first occurrence grows strictly along the result); and the result
  is at most as long as the list of matches.
\<close>

theorem remove_duplicates_first_occurrences:
  "distinct (remove_duplicates all_mp3_urls)
   \<and> set (remove_duplicates all_mp3_urls) = set all_mp3_urls
   \<and> sorted_wrt (<) (map (\<lambda>u. length (takeWhile (\<lambda>v. v \<noteq> u) all_mp3_urls))
        (remove_duplicates all_mp3_urls))
   \<and> length (remove_duplicates all_mp3_urls) \<le> length all_mp3_urls"
  by (simp add: distinct_remove_duplicates set_remove_duplicates first_occurrence_order
      length_remove_duplicates)

theorem remove_duplicates_first_occurrences_witness:
  "remove_duplicates (findall_mp3 (str
     ''\"https://storage.googleapis.com/b.mp3\" \"https://storage.googleapis.com/a.mp3\" \"https://storage.googleapis.com/b.mp3\"''))
   = [str ''https://storage.googleapis.com/b.mp3'', str ''https://storage.googleapis.com/a.mp3'']
   \<and> distinct [str ''https://storage.googleapis.com/b.mp3'',
        str ''https://storage.googleapis.com/a.mp3'']"
proof -
  let ?body = "str
     ''\"https://storage.googleapis.com/b.mp3\" \"https://storage.googleapis.com/a.mp3\" \"https://storage.googleapis.com/b.mp3\"''"
  have "remove_duplicates (findall_mp3 ?body)
      = [str ''https://storage.googleapis.com/b.mp3'', str ''https://storage.googleapis.com/a.mp3'']"
    by (simp add: remove_duplicates_def match_mp3_def mp3_prefix_def str_def)
  then show ?thesis
    using remove_duplicates_first_occurrences[of "findall_mp3 ?body"] by simp
qed

section \<open>The extractor\<close>

lemma match_mp3_prefix: "match_mp3 s = Some m \<Longrightarrow> prefix mp3_prefix m"
  by (auto simp: match_mp3_def Let_def split: if_splits option.splits)

lemma mp3_prefix_nonempty: "mp3_prefix \<noteq> []"
  by (simp add: mp3_prefix_def str_def)

lemma findall_mp3_prefix: "m \<in> set (findall_mp3 s) \<Longrightarrow> prefix mp3_prefix m"
proof (induction s rule: findall_mp3.induct)
  case 1
  then show ?case by simp
next
  case (2 c cs)
  then show ?case
    by (cases "match_mp3 (c # cs)") (auto dest: match_mp3_prefix)
qed

lemma findall_mp3_nonempty: "m \<in> set (findall_mp3 s) \<Longrightarrow> m \<noteq> []"
  using findall_mp3_prefix mp3_prefix_nonempty by fastforce

lemma split_from_nonempty: "split_from sep seg s \<noteq> []"
  by (induction sep seg s rule: split_from.induct) auto

lemma split_from_two:
  "sep \<noteq> [] \<Longrightarrow> py_in sep s \<Longrightarrow> 2 \<le> length (split_from sep seg s)"
proof (induction sep seg s rule: split_from.induct)
  case (1 sep seg)
  then show ?case by simp
next
  case (2 sep seg c cs)
  show ?case
  proof (cases "prefix sep (c # cs)")
    case True
    then show ?thesis
      using 2(3) split_from_nonempty[of sep "[]" "drop (length sep) (c # cs)"]
      by (cases "split_from sep [] (drop (length sep) (c # cs))") auto
  next
    case False
    then show ?thesis using 2 by auto
  qed
qed

text \<open>The two subscripts of line 92 are always in range.\<close>

lemma song_name_part_returns:
  "py_in (str '' - '') title_text \<Longrightarrow> \<exists>name. song_name_part title_text = Inr (py_strip name)"
proof -
  assume a: "py_in (str '' - '') title_text"
  have "str '' - '' \<noteq> []" by (simp add: str_def)
  then have "2 \<le> length (py_split (str '' - '') title_text)"
    unfolding py_split_def using a by (rule split_from_two)
  then obtain after where 1: "subscript (py_split (str '' - '') title_text) 1 = Inr after"
    by (auto simp: subscript_def)
  have "py_split (str '' | '') after \<noteq> []"
    unfolding py_split_def by (rule split_from_nonempty)
  then obtain name where 2: "subscript (py_split (str '' | '') after) 0 = Inr name"
    by (auto simp: subscript_def)
  show ?thesis using 1 2 by (auto simp: song_name_part_def)
qed

lemma sanitize_default: "sanitize ua (str ''udio_song'') = str ''udio_song''"
  by (simp add: sanitize_def replace_space_def py_strip_def re_sub_title_def is_word_def
      isspace_def ascii_alnum_def ascii_alpha_def str_def)

lemma song_title_of_returns: "\<exists>t. song_title_of ua body = Inr t"
proof (cases "search_title body")
  case None
  then show ?thesis by (simp add: song_title_of_def)
next
  case (Some title_text)
  show ?thesis
  proof (cases "py_in (str '' - '') title_text")
    case True
    then obtain name where "song_name_part title_text = Inr (py_strip name)"
      using song_name_part_returns by blast
    then show ?thesis using Some True by (simp add: song_title_of_def)
  next
    case False
    then show ?thesis using Some by (simp add: song_title_of_def)
  qed
qed

lemma probe_loop_first_success:
  "list_all (\<lambda>p. head p \<noteq> Inr 200) pre \<Longrightarrow> head u = Inr 200 \<Longrightarrow>
   probe_loop head (pre @ u # post) = (Some u, pre @ [u])"
proof (induction pre)
  case Nil
  then show ?case by simp
next
  case (Cons p pre)
  then show ?case by (cases "head p") auto
qed

lemma probe_loop_no_success:
  "list_all (\<lambda>p. head p \<noteq> Inr 200) urls \<Longrightarrow> probe_loop head urls = (None, urls)"
proof (induction urls)
  case Nil
  then show ?case by simp
next
  case (Cons p urls)
  then show ?case by (cases "head p") auto
qed

lemma select_first_success:
  assumes "list_all (\<lambda>p. head p \<noteq> Inr 200) pre" and "head u = Inr 200" and "u \<noteq> []"
  shows "select_audio_url head (pre @ u # post) = Inr u"
  using probe_loop_first_success[OF assms(1,2), of post] assms(3)
  by (simp add: select_audio_url_def)

lemma select_fallback:
  assumes "list_all (\<lambda>p. head p \<noteq> Inr 200) (c # cs)"
  shows "select_audio_url head (c # cs) = Inr c"
  using probe_loop_no_success[OF assms] by (simp add: select_audio_url_def subscript_def)

lemma select_audio_url_returns: "urls \<noteq> [] \<Longrightarrow> \<exists>a. select_audio_url head urls = Inr a"
  by (cases urls) (auto simp: select_audio_url_def subscript_def split: option.splits)

lemma remove_duplicates_nonempty: "xs \<noteq> [] \<Longrightarrow> remove_duplicates xs \<noteq> []"
  using set_remove_duplicates[of xs] by (cases "remove_duplicates xs") auto

lemma extract_success:
  assumes get: "http_get env udio_url = Inr r"
    and status: "\<not> raise_for_status (status_code r)"
    and sel: "select_audio_url (http_head env) (remove_duplicates (findall_mp3 (text' r))) = Inr a"
    and found: "findall_mp3 (text' r) \<noteq> []"
    and title: "song_title_of (unicode_isalnum env) (text' r) = Inr t"
  shows "extract_audio_url env udio_url = (Some a, Some t)"
  using assms by (simp add: extract_audio_url_def Let_def)

lemma extract_title:
  assumes "http_get env udio_url = Inr r"
    and "\<not> raise_for_status (status_code r)"
    and "findall_mp3 (text' r) \<noteq> []"
    and "song_title_of (unicode_isalnum env) (text' r) = Inr t"
  shows "snd (extract_audio_url env udio_url) = Some t"
proof -
  obtain a where
    "select_audio_url (http_head env) (remove_duplicates (findall_mp3 (text' r))) = Inr a"
    using select_audio_url_returns remove_duplicates_nonempty assms(3) by blast
  then have "extract_audio_url env udio_url = (Some a, Some t)"
    using assms by (intro extract_success)
  then show ?thesis by simp
qed

lemma extract_title_source:
  assumes "http_get env udio_url = Inr r"
    and "extract_audio_url env udio_url = (Some a, Some t)"
  shows "song_title_of (unicode_isalnum env) (text' r) = Inr t"
  using assms by (simp add: extract_audio_url_def Let_def split: if_splits sum.splits)

lemma default_title_chars: "list_all (title_char ua) (str ''udio_song'')"
  by (simp add: title_char_def is_word_def ascii_alnum_def ascii_alpha_def str_def)

lemma default_stripped: "stripped (str ''udio_song'')"
  by (simp add: stripped_def isspace_def str_def)

lemma song_title_of_chars:
  assumes "song_title_of ua body = Inr t"
  shows "list_all (title_char ua) t \<and> stripped t"
proof (cases "search_title body")
  case None
  then have "t = str ''udio_song''"
    using assms by (simp add: song_title_of_def)
  then show ?thesis by (simp add: default_title_chars default_stripped)
next
  case (Some title_text)
  then obtain s where "t = sanitize ua s"
    using assms by (auto simp: song_title_of_def split: if_splits sum.splits)
  then show ?thesis
    using sanitize_title_char[of _ ua s] stripped_sanitize[of ua s] by (simp add: list_all_iff)
qed

text \<open>
  C3. Take any page that was fetched and any answers to the probes. If the candidates
  (the matches of the page without duplicates, in order) are \<open>pre @ u # post\<close>, no probe
  of \<open>pre\<close> is answered with status 200 (the success status of line 70) and the probe of
  \<open>u\<close> is, then the loop probes exactly \<open>pre\<close> and then \<open>u\<close>, in this order, and
  \<^verbatim>\<open>extract_audio_url\<close> returns \<open>u\<close>: the first candidate whose probe succeeds. The
  candidates \<open>post\<close> after it are neither probed nor selected.
\<close>

theorem extract_selects_first_success:
  assumes "http_get env udio_url = Inr r"
    and "\<not> raise_for_status (status_code r)"
    and "remove_duplicates (findall_mp3 (text' r)) = pre @ u # post"
    and "list_all (\<lambda>p. http_head env p \<noteq> Inr 200) pre"
    and "http_head env u = Inr 200"
  shows "probe_loop (http_head env) (pre @ u # post) = (Some u, pre @ [u])
    \<and> fst (extract_audio_url env udio_url) = Some u"
proof -
  have "u \<in> set (findall_mp3 (text' r))"
    using assms(3) set_remove_duplicates[of "findall_mp3 (text' r)"] by auto
  then have u: "u \<noteq> []" and found: "findall_mp3 (text' r) \<noteq> []"
    using findall_mp3_nonempty by auto
  obtain t where t: "song_title_of (unicode_isalnum env) (text' r) = Inr t"
    using song_title_of_returns by blast
  have "select_audio_url (http_head env) (remove_duplicates (findall_mp3 (text' r))) = Inr u"
    unfolding assms(3) using assms(4,5) u by (rule select_first_success)
  then have "extract_audio_url env udio_url = (Some u, Some t)"
    using assms(1,2) found t by (intro extract_success)
  then show ?thesis
    using probe_loop_first_success[OF assms(4,5)] by simp
qed

theorem extract_selects_first_success_witness:
  "remove_duplicates (findall_mp3 links_page) = [mp3_a, mp3_b, mp3_c]
   \<and> probe_loop (head_table [(mp3_a, 404), (mp3_b, 200), (mp3_c, 200)]) [mp3_a, mp3_b, mp3_c]
       = (Some mp3_b, [mp3_a, mp3_b])
   \<and> fst (extract_audio_url
         (page_env links_page (head_table [(mp3_a, 404), (mp3_b, 200), (mp3_c, 200)])) song_url)
       = Some mp3_b"
proof -
  let ?head = "head_table [(mp3_a, 404), (mp3_b, 200), (mp3_c, 200)]"
  let ?env = "page_env links_page ?head"
  let ?r = "\<lparr>status_code = 200, text' = links_page\<rparr>"
  have 1: "http_get ?env song_url = Inr ?r"
    by (simp add: page_env_def)
  have 2: "\<not> raise_for_status (status_code ?r)"
    by (simp add: raise_for_status_def)
  have 3: "remove_duplicates (findall_mp3 (text' ?r)) = [mp3_a] @ mp3_b # [mp3_c]"
    by (simp add: remove_duplicates_def match_mp3_def mp3_prefix_def page_env_def
        head_table_def song_url_def mp3_a_def mp3_b_def mp3_c_def links_page_def str_def)
  have 4: "list_all (\<lambda>p. http_head ?env p \<noteq> Inr 200) [mp3_a]"
    by (simp add: page_env_def head_table_def song_url_def mp3_a_def mp3_b_def mp3_c_def
        links_page_def str_def)
  have 5: "http_head ?env mp3_b = Inr 200"
    by (simp add: page_env_def head_table_def song_url_def mp3_a_def mp3_b_def mp3_c_def
        links_page_def str_def)
  show ?thesis
    using extract_selects_first_success[OF 1 2 3 4 5] 3 by (simp add: page_env_def)
qed

text \<open>
  C4. Take any page that was fetched whose list of candidates is not empty, \<open>c # cs\<close>.
  If no probe succeeds (each one raises or is answered with a status other than 200),
  the loop probes all of them and selects none, and \<^verbatim>\<open>extract_audio_url\<close> returns the
  first candidate \<open>c\<close>.
\<close>

theorem extract_falls_back_to_first:
  assumes "http_get env udio_url = Inr r"
    and "\<not> raise_for_status (status_code r)"
    and "remove_duplicates (findall_mp3 (text' r)) = c # cs"
    and "list_all (\<lambda>p. http_head env p \<noteq> Inr 200) (c # cs)"
  shows "probe_loop (http_head env) (c # cs) = (None, c # cs)
    \<and> fst (extract_audio_url env udio_url) = Some c"
proof -
  have found: "findall_mp3 (text' r) \<noteq> []"
    using assms(3) by (auto simp: remove_duplicates_Nil)
  obtain t where t: "song_title_of (unicode_isalnum env) (text' r) = Inr t"
    using song_title_of_returns by blast
  have "select_audio_url (http_head env) (remove_duplicates (findall_mp3 (text' r))) = Inr c"
    unfolding assms(3) using assms(4) by (rule select_fallback)
  then have "extract_audio_url env udio_url = (Some c, Some t)"
    using assms(1,2) found t by (intro extract_success)
  then show ?thesis
    using probe_loop_no_success[OF assms(4)] by simp
qed

theorem extract_falls_back_to_first_witness:
  "remove_duplicates (findall_mp3 links_page) = [mp3_a, mp3_b, mp3_c]
   \<and> probe_loop (head_table [(mp3_a, 404), (mp3_b, 503)]) [mp3_a, mp3_b, mp3_c]
       = (None, [mp3_a, mp3_b, mp3_c])
   \<and> fst (extract_audio_url (page_env links_page (head_table [(mp3_a, 404), (mp3_b, 503)]))
         song_url)
       = Some mp3_a"
proof -
  let ?head = "head_table [(mp3_a, 404), (mp3_b, 503)]"
  let ?env = "page_env links_page ?head"
  let ?r = "\<lparr>status_code = 200, text' = links_page\<rparr>"
  have 1: "http_get ?env song_url = Inr ?r"
    by (simp add: page_env_def)
  have 2: "\<not> raise_for_status (status_code ?r)"
    by (simp add: raise_for_status_def)
  have 3: "remove_duplicates (findall_mp3 (text' ?r)) = mp3_a # [mp3_b, mp3_c]"
    by (simp add: remove_duplicates_def match_mp3_def mp3_prefix_def page_env_def
        head_table_def song_url_def mp3_a_def mp3_b_def mp3_c_def links_page_def str_def)
  have 4: "list_all (\<lambda>p. http_head ?env p \<noteq> Inr 200) (mp3_a # [mp3_b, mp3_c])"
    by (simp add: page_env_def head_table_def song_url_def mp3_a_def mp3_b_def mp3_c_def
        links_page_def str_def)
  show ?thesis
    using extract_falls_back_to_first[OF 1 2 3 4] 3 by (simp add: page_env_def)
qed

text \<open>
  C9. For every environment and every URL, \<^verbatim>\<open>extract_audio_url\<close> returns either the pair
  \<^verbatim>\<open>(None, None)\<close> or a pair of an audio URL and a title that are both present; it never
  returns one without the other.
\<close>

theorem extract_pair_atomic:
  "extract_audio_url env udio_url = (None, None)
   \<or> (\<exists>audio_url song_title.
         extract_audio_url env udio_url = (Some audio_url, Some song_title))"
  by (simp add: extract_audio_url_def Let_def split: sum.splits)

theorem extract_pair_atomic_witness:
  "extract_audio_url (page_env (titled_page (str ''My Song - Great Hit | Udio'')) (head_table []))
     song_url = (Some mp3_a, Some (str ''Great_Hit''))
   \<and> extract_audio_url (page_env (str ''<title>My Song - Great Hit | Udio</title>'')
       (head_table [])) song_url = (None, None)"
proof -
  have "extract_audio_url (page_env (titled_page (str ''My Song - Great Hit | Udio''))
      (head_table [])) song_url = (Some mp3_a, Some (str ''Great_Hit''))"
    by (simp add: extract_audio_url_def raise_for_status_def select_audio_url_def
        subscript_def remove_duplicates_def match_mp3_def mp3_prefix_def song_title_of_def
        song_name_part_def match_title_def py_split_def sanitize_def replace_space_def
        py_strip_def re_sub_title_def is_word_def isspace_def ascii_alnum_def
        ascii_alpha_def Let_def page_env_def head_table_def song_url_def mp3_a_def
        titled_page_def str_def)
  moreover have "extract_audio_url (page_env (str ''<title>My Song - Great Hit | Udio</title>'')
      (head_table [])) song_url = (None, None)"
    by (simp add: extract_audio_url_def raise_for_status_def select_audio_url_def
        subscript_def remove_duplicates_def match_mp3_def mp3_prefix_def song_title_of_def
        song_name_part_def match_title_def py_split_def sanitize_def replace_space_def
        py_strip_def re_sub_title_def is_word_def isspace_def ascii_alnum_def
        ascii_alpha_def Let_def page_env_def head_table_def song_url_def mp3_a_def
        titled_page_def str_def)
  ultimately show ?thesis
    using extract_pair_atomic[of "page_env (titled_page (str ''My Song - Great Hit | Udio''))
      (head_table [])" song_url]
    by simp
qed

text \<open>
  C10. For every page that was fetched and has at least one asset link: if a title
  element is found but its text does not contain the separator \<^verbatim>\<open>' - '\<close>, the text is
  discarded and the title returned is the default name \<^verbatim>\<open>udio_song\<close>, which the
  sanitizing step leaves unchanged.
\<close>

theorem title_without_separator_is_default:
  assumes "http_get env udio_url = Inr r"
    and "\<not> raise_for_status (status_code r)"
    and "findall_mp3 (text' r) \<noteq> []"
    and "search_title (text' r) = Some title_text"
    and "\<not> py_in (str '' - '') title_text"
  shows "snd (extract_audio_url env udio_url) = Some (str ''udio_song'')
    \<and> sanitize (unicode_isalnum env) (str ''udio_song'') = str ''udio_song''"
proof -
  have "song_title_of (unicode_isalnum env) (text' r) = Inr (str ''udio_song'')"
    using assms(4,5) by (simp add: song_title_of_def sanitize_default)
  then show ?thesis
    using assms(1,2,3) by (simp add: extract_title sanitize_default)
qed

theorem title_without_separator_is_default_witness:
  "search_title (titled_page (str ''Great Hit | Udio'')) = Some (str ''Great Hit | Udio'')
   \<and> snd (extract_audio_url (page_env (titled_page (str ''Great Hit | Udio'')) (head_table []))
         song_url) = Some (str ''udio_song'')"
proof -
  let ?page = "titled_page (str ''Great Hit | Udio'')"
  let ?env = "page_env ?page (head_table [])"
  let ?r = "\<lparr>status_code = 200, text' = ?page\<rparr>"
  have 1: "http_get ?env song_url = Inr ?r"
    by (simp add: page_env_def)
  have 2: "\<not> raise_for_status (status_code ?r)"
    by (simp add: raise_for_status_def)
  have 3: "findall_mp3 (text' ?r) \<noteq> []"
    by (simp add: match_mp3_def mp3_prefix_def page_env_def head_table_def song_url_def
        titled_page_def str_def)
  have 4: "search_title (text' ?r) = Some (str ''Great Hit | Udio'')"
    by (simp add: match_title_def page_env_def head_table_def song_url_def titled_page_def
        str_def)
  have 5: "\<not> py_in (str '' - '') (str ''Great Hit | Udio'')"
    by (simp add: str_def)
  show ?thesis
    using title_without_separator_is_default[OF 1 2 3 4 5] 4 by simp
qed

text \<open>
  C1, as the code has it. For every page that was fetched and for which
  \<^verbatim>\<open>extract_audio_url\<close> returns a title: the title contains only word characters (the
  underscore among them, also where it replaces a space), hyphens and white-space
  characters other than the space; it has no white space at either end; and if no title
  element is found it is the fixed default name \<^verbatim>\<open>udio_song\<close>. Nothing is said about
  the title being non-empty: no default replaces a name that is empty after sanitization.
\<close>

theorem extract_title_characters:
  assumes "http_get env udio_url = Inr r"
    and "extract_audio_url env udio_url = (Some audio_url, Some song_title)"
  shows "list_all (title_char (unicode_isalnum env)) song_title
    \<and> stripped song_title
    \<and> (search_title (text' r) = None \<longrightarrow> song_title = str ''udio_song'')"
proof -
  have t: "song_title_of (unicode_isalnum env) (text' r) = Inr song_title"
    using assms by (rule extract_title_source)
  then have "search_title (text' r) = None \<longrightarrow> song_title = str ''udio_song''"
    by (auto simp: song_title_of_def)
  then show ?thesis using song_title_of_chars[OF t] by simp
qed

theorem extract_title_characters_witness:
  "extract_audio_url (page_env (titled_page (str ''My Song - Great Hit | Udio'')) (head_table []))
     song_url = (Some mp3_a, Some (str ''Great_Hit''))
   \<and> list_all (title_char (\<lambda>c. False)) (str ''Great_Hit'')
   \<and> search_title links_page = None
   \<and> extract_audio_url (page_env links_page (head_table [])) song_url
       = (Some mp3_a, Some (str ''udio_song''))"
proof -
  let ?page = "titled_page (str ''My Song - Great Hit | Udio'')"
  let ?env = "page_env ?page (head_table [])"
  have 1: "http_get ?env song_url = Inr \<lparr>status_code = 200, text' = ?page\<rparr>"
    by (simp add: page_env_def)
  have 2: "extract_audio_url ?env song_url = (Some mp3_a, Some (str ''Great_Hit''))"
    by (simp add: extract_audio_url_def raise_for_status_def select_audio_url_def
        subscript_def remove_duplicates_def match_mp3_def mp3_prefix_def song_title_of_def
        song_name_part_def match_title_def py_split_def sanitize_def replace_space_def
        py_strip_def re_sub_title_def is_word_def isspace_def ascii_alnum_def
        ascii_alpha_def Let_def page_env_def head_table_def song_url_def mp3_a_def
        links_page_def titled_page_def str_def)
  let ?env' = "page_env links_page (head_table [])"
  have 3: "http_get ?env' song_url = Inr \<lparr>status_code = 200, text' = links_page\<rparr>"
    by (simp add: page_env_def)
  have 4: "search_title links_page = None"
    by (simp add: match_title_def page_env_def head_table_def song_url_def mp3_a_def
        links_page_def titled_page_def str_def)
  have 5: "extract_audio_url ?env' song_url = (Some mp3_a, Some (str ''udio_song''))"
    by (simp add: extract_audio_url_def raise_for_status_def select_audio_url_def
        subscript_def remove_duplicates_def match_mp3_def mp3_prefix_def song_title_of_def
        song_name_part_def match_title_def py_split_def sanitize_def replace_space_def
        py_strip_def re_sub_title_def is_word_def isspace_def ascii_alnum_def
        ascii_alpha_def Let_def page_env_def head_table_def song_url_def mp3_a_def
        links_page_def titled_page_def str_def)
  show ?thesis
    using extract_title_characters[OF 1 2] extract_title_characters[OF 3 5] 2 4 5
    by (simp add: page_env_def)
qed

text \<open>
  The claim as it was stated fails on two pages. The name \<^verbatim>\<open>!!!\<close> is empty after
  sanitization and is returned empty, not replaced by the default; and a tab inside the
  name is kept, which is neither a word character nor a hyphen.
\<close>

theorem extract_title_empty_counterexample:
  "extract_audio_url (page_env (titled_page (str ''My Song - !!! | Udio'')) (head_table []))
     song_url = (Some mp3_a, Some [])
   \<and> extract_audio_url
       (page_env (titled_page (str ''My Song - Great'' @ [9] @ str ''Hit | Udio'')) (head_table []))
       song_url = (Some mp3_a, Some (str ''Great'' @ [9] @ str ''Hit''))
   \<and> \<not> is_word (\<lambda>c. False) 9"
  by (simp add: extract_audio_url_def raise_for_status_def select_audio_url_def
      subscript_def remove_duplicates_def match_mp3_def mp3_prefix_def song_title_of_def
      song_name_part_def match_title_def py_split_def sanitize_def replace_space_def
      py_strip_def re_sub_title_def is_word_def isspace_def ascii_alnum_def ascii_alpha_def
      Let_def page_env_def head_table_def song_url_def mp3_a_def titled_page_def str_def)

section \<open>The orchestrator\<close>

text \<open>
  C7. Whenever \<^verbatim>\<open>main\<close> gets as far as calling \<^verbatim>\<open>extract_audio_url\<close> (a URL argument is
  given and valid, and the output directory exists or can be created) and the page is
  fetched with a body in which the asset pattern has no match, \<^verbatim>\<open>extract_audio_url\<close>
  returns \<^verbatim>\<open>(None, None)\<close>, and \<^verbatim>\<open>main\<close> ends with \<^verbatim>\<open>sys.exit(1)\<close> without having opened
  any output file.
\<close>

theorem no_match_exits_1:
  assumes "2 \<le> length argv"
    and "udio_url = py_strip (argv ! 1)"
    and "output_dir = (if length argv > 2 then argv ! 2 else str ''.'')"
    and "is_valid_udio_url env udio_url"
    and "path_exists env output_dir \<or> \<not> makedirs_fails env output_dir"
    and "http_get env udio_url = Inr r"
    and "findall_mp3 (text' r) = []"
  shows "extract_audio_url env udio_url = (None, None)
    \<and> status (main env argv) = Exit 1
    \<and> opened_files (main env argv) = []"
proof -
  have e: "extract_audio_url env udio_url = (None, None)"
    using assms(6,7) by (simp add: extract_audio_url_def)
  have "\<not> length argv < 2"
    using assms(1) by simp
  then show ?thesis
    using e assms(2,3,4,5) by (auto simp: main_def Let_def)
qed

theorem no_match_exits_1_witness:
  "findall_mp3 (str ''<title>My Song - Great Hit | Udio</title>'') = []
   \<and> main (page_env (str ''<title>My Song - Great Hit | Udio</title>'') (head_table []))
       [str ''udio_downloader.py'', song_url]
     = \<lparr>status = Exit 1, made_dirs = [], opened_files = []\<rparr>"
proof -
  let ?page = "str ''<title>My Song - Great Hit | Udio</title>''"
  let ?env = "page_env ?page (head_table [])"
  let ?argv = "[str ''udio_downloader.py'', song_url]"
  have 1: "2 \<le> length ?argv"
    by simp
  have 2: "song_url = py_strip (?argv ! 1)"
    by (simp add: py_strip_def isspace_def page_env_def head_table_def song_url_def str_def)
  have 3: "str ''.'' = (if length ?argv > 2 then ?argv ! 2 else str ''.'')"
    by simp
  have 4: "is_valid_udio_url ?env song_url"
    by (simp add: is_valid_udio_url_def urlparse_def urlsplit_def split_scheme_def
        splitnetloc_def brackets_raise_def checknetloc_raises_def splitparams_def cut_at_def
        netloc_delim_def whatwg_c0_control_or_space_def unsafe_url_byte_def scheme_char_def
        ascii_lower_def uses_params_def ascii_alnum_def ascii_alpha_def Let_def page_env_def
        head_table_def song_url_def str_def)
  have 5: "path_exists ?env (str ''.'') \<or> \<not> makedirs_fails ?env (str ''.'')"
    by (simp add: page_env_def)
  have 6: "http_get ?env song_url = Inr \<lparr>status_code = 200, text' = ?page\<rparr>"
    by (simp add: page_env_def)
  have 7: "findall_mp3 (text' \<lparr>status_code = 200, text' = ?page\<rparr>) = []"
    by (simp add: match_mp3_def mp3_prefix_def str_def)
  have 8: "main ?env ?argv = \<lparr>status = Exit 1, made_dirs = [], opened_files = []\<rparr>"
    by (simp add: main_def extract_audio_url_def raise_for_status_def select_audio_url_def
        subscript_def remove_duplicates_def match_mp3_def mp3_prefix_def song_title_of_def
        song_name_part_def match_title_def py_split_def sanitize_def replace_space_def
        py_strip_def re_sub_title_def is_word_def isspace_def ascii_alnum_def
        ascii_alpha_def Let_def is_valid_udio_url_def urlparse_def urlsplit_def
        split_scheme_def splitnetloc_def brackets_raise_def checknetloc_raises_def
        splitparams_def cut_at_def netloc_delim_def whatwg_c0_control_or_space_def
        unsafe_url_byte_def scheme_char_def ascii_lower_def uses_params_def page_env_def
        head_table_def song_url_def str_def)
  show ?thesis
    using no_match_exits_1[OF 1 2 3 4 5 6 7] 7 8 by simp
qed

section \<open>The validator\<close>

text \<open>
  C6, as the code has it. For every input string, \<^verbatim>\<open>is_valid_udio_url\<close> returns true if
  and only if the string parses as a URL whose netloc (all that stands between \<^verbatim>\<open>//\<close>
  and the next \<^verbatim>\<open>/\<close>, \<^verbatim>\<open>?\<close> or \<^verbatim>\<open>#\<close>, userinfo and port included, compared as written)
  equals \<^verbatim>\<open>www.udio.com\<close> and whose path contains \<^verbatim>\<open>/songs/\<close>. So it returns false for
  every URL whose host is not \<^verbatim>\<open>www.udio.com\<close> or whose path lacks that segment, and a
  parse failure yields false, not an exception.
\<close>

theorem is_valid_udio_url_netloc:
  "is_valid_udio_url env url =
     (\<exists>parsed. urlparse env url = Inr parsed \<and> netloc parsed = str ''www.udio.com''
        \<and> py_in (str ''/songs/'') (path parsed))
   \<and> (is_valid_udio_url env url \<longrightarrow>
        (\<exists>parsed. urlparse env url = Inr parsed
           \<and> spec_host (netloc parsed) = str ''www.udio.com''
           \<and> py_in (str ''/songs/'') (path parsed)))
   \<and> ((\<exists>e. urlparse env url = Inl e) \<longrightarrow> \<not> is_valid_udio_url env url)"
proof -
  have h: "spec_host (str ''www.udio.com'') = str ''www.udio.com''"
    by (simp add: spec_host_def str_def)
  show ?thesis
    by (cases "urlparse env url") (auto simp: is_valid_udio_url_def h)
qed

theorem is_valid_udio_url_netloc_witness:
  "is_valid_udio_url (page_env [] (head_table [])) song_url
   \<and> urlparse (page_env [] (head_table [])) song_url
       = Inr \<lparr>scheme = str ''https'', netloc = str ''www.udio.com'', path = str ''/songs/abc123'',
              params = [], query = [], fragment = []\<rparr>
   \<and> urlparse (page_env [] (head_table [])) (str ''https://[www.udio.com/songs/abc123'')
       = Inl ValueError
   \<and> \<not> is_valid_udio_url (page_env [] (head_table [])) (str ''https://[www.udio.com/songs/abc123'')"
proof -
  let ?env = "page_env [] (head_table [])"
  have 1: "is_valid_udio_url ?env song_url"
    by (simp add: is_valid_udio_url_def urlparse_def urlsplit_def split_scheme_def
        splitnetloc_def brackets_raise_def checknetloc_raises_def splitparams_def cut_at_def
        netloc_delim_def whatwg_c0_control_or_space_def unsafe_url_byte_def scheme_char_def
        ascii_lower_def uses_params_def ascii_alnum_def ascii_alpha_def Let_def page_env_def
        head_table_def song_url_def str_def)
  have 2: "urlparse ?env song_url
      = Inr \<lparr>scheme = str ''https'', netloc = str ''www.udio.com'', path = str ''/songs/abc123'',
             params = [], query = [], fragment = []\<rparr>"
    by (simp add: is_valid_udio_url_def urlparse_def urlsplit_def split_scheme_def
        splitnetloc_def brackets_raise_def checknetloc_raises_def splitparams_def cut_at_def
        netloc_delim_def whatwg_c0_control_or_space_def unsafe_url_byte_def scheme_char_def
        ascii_lower_def uses_params_def ascii_alnum_def ascii_alpha_def Let_def page_env_def
        head_table_def song_url_def str_def)
  have 3: "urlparse ?env (str ''https://[www.udio.com/songs/abc123'') = Inl ValueError"
    by (simp add: is_valid_udio_url_def urlparse_def urlsplit_def split_scheme_def
        splitnetloc_def brackets_raise_def checknetloc_raises_def splitparams_def cut_at_def
        netloc_delim_def whatwg_c0_control_or_space_def unsafe_url_byte_def scheme_char_def
        ascii_lower_def uses_params_def ascii_alnum_def ascii_alpha_def Let_def page_env_def
        head_table_def song_url_def str_def)
  show ?thesis
    using is_valid_udio_url_netloc[of ?env song_url]
      is_valid_udio_url_netloc[of ?env "str ''https://[www.udio.com/songs/abc123''"] 1 2 3
    by simp
qed

text \<open>
  The claim with the host in place of the netloc fails: these two URLs parse, their host
  is \<^verbatim>\<open>www.udio.com\<close> and their path contains \<^verbatim>\<open>/songs/\<close>, and the validator rejects
  both, since the netloc also holds the userinfo or the port.
\<close>

theorem is_valid_udio_url_host_counterexample:
  "urlparse (page_env [] (head_table [])) (str ''https://user@www.udio.com/songs/abc123'')
     = Inr \<lparr>scheme = str ''https'', netloc = str ''user@www.udio.com'',
            path = str ''/songs/abc123'', params = [], query = [], fragment = []\<rparr>
   \<and> spec_host (str ''user@www.udio.com'') = str ''www.udio.com''
   \<and> py_in (str ''/songs/'') (str ''/songs/abc123'')
   \<and> \<not> is_valid_udio_url (page_env [] (head_table []))
         (str ''https://user@www.udio.com/songs/abc123'')
   \<and> urlparse (page_env [] (head_table [])) (str ''https://www.udio.com:443/songs/abc123'')
       = Inr \<lparr>scheme = str ''https'', netloc = str ''www.udio.com:443'',
              path = str ''/songs/abc123'', params = [], query = [], fragment = []\<rparr>
   \<and> spec_host (str ''www.udio.com:443'') = str ''www.udio.com''
   \<and> \<not> is_valid_udio_url (page_env [] (head_table []))
         (str ''https://www.udio.com:443/songs/abc123'')"
  by (simp add: is_valid_udio_url_def urlparse_def urlsplit_def split_scheme_def
      splitnetloc_def brackets_raise_def checknetloc_raises_def splitparams_def cut_at_def
      netloc_delim_def whatwg_c0_control_or_space_def unsafe_url_byte_def scheme_char_def
      ascii_lower_def uses_params_def ascii_alnum_def ascii_alpha_def Let_def spec_host_def
      page_env_def head_table_def str_def)

section \<open>Creating the output directory\<close>

text \<open>
  C2 asks that no exception escapes from \<^verbatim>\<open>main\<close>, the creation of the output directory
  included. \<^verbatim>\<open>os.makedirs\<close> at line 169 is called outside every \<^verbatim>\<open>try\<close>: with a valid
  URL and an output directory that does not exist and cannot be created, the run ends
  with the \<^verbatim>\<open>OSError\<close> uncaught, not with \<^verbatim>\<open>sys.exit(1)\<close>.
\<close>

theorem main_makedirs_uncaught:
  "main (no_dir_env [] (head_table []))
     [str ''udio_downloader.py'', song_url, str ''/dev/null/out'']
   = \<lparr>status = Uncaught OSError, made_dirs = [], opened_files = []\<rparr>"
  by (simp add: main_def py_strip_def isspace_def is_valid_udio_url_def urlparse_def
      urlsplit_def split_scheme_def splitnetloc_def brackets_raise_def
      checknetloc_raises_def splitparams_def cut_at_def netloc_delim_def
      whatwg_c0_control_or_space_def unsafe_url_byte_def scheme_char_def ascii_lower_def
      uses_params_def ascii_alnum_def ascii_alpha_def Let_def head_table_def no_dir_env_def
      song_url_def page_env_def str_def)

section \<open>A complete run\<close>

text \<open>
  The example of the specification, from the command line to the file: the page has the
  title \<^verbatim>\<open>My Song - Great Hit | Udio\<close> and one asset link, which answers the probe and
  the download; the run ends normally and has written \<^verbatim>\<open>./Great_Hit.mp3\<close>.
\<close>

lemma main_complete_example:
  "main ((page_env (titled_page (str ''My Song - Great Hit | Udio'')) (head_table [(mp3_a, 200)]))
       \<lparr>py_int := (\<lambda>s. if s = str ''3'' then Some 3 else None),
        http_get_stream := (\<lambda>u. Inr \<lparr>stream_status_code = 200,
          content_length = Some (str ''3''), chunks = [3], body_fails = False\<rparr>)\<rparr>)
     [str ''udio_downloader.py'', str '' https://www.udio.com/songs/abc123 '']
   = \<lparr>status = Completed, made_dirs = [], opened_files = [str ''./Great_Hit.mp3'']\<rparr>"
  by (simp add: main_def download_audio_def size_overflows_def path_join_def format_str_def
      suffix_to_prefix extract_audio_url_def raise_for_status_def select_audio_url_def
      subscript_def remove_duplicates_def match_mp3_def mp3_prefix_def song_title_of_def
      song_name_part_def match_title_def py_split_def sanitize_def replace_space_def
      py_strip_def re_sub_title_def is_word_def isspace_def ascii_alnum_def ascii_alpha_def
      Let_def is_valid_udio_url_def urlparse_def urlsplit_def split_scheme_def
      splitnetloc_def brackets_raise_def checknetloc_raises_def splitparams_def cut_at_def
      netloc_delim_def whatwg_c0_control_or_space_def unsafe_url_byte_def scheme_char_def
      ascii_lower_def uses_params_def page_env_def head_table_def mp3_a_def titled_page_def
      str_def)

end
